theory Spec2Isabelle
  imports Complex_Main
begin

section \<open>Values of the bot\<close>

text \<open>
  The embedding follows \<^verbatim>\<open>bot.py\<close>. Python's \<^verbatim>\<open>None\<close> is \<open>None\<close> of an option type,
  Python's unbounded \<^verbatim>\<open>int\<close> is \<open>int\<close>, and a Python \<^verbatim>\<open>float\<close> is an exact rational
  (\<open>rat\<close>): rounding of binary floating point and the non-finite floats are outside the
  model. A \<^verbatim>\<open>str\<close> is a \<open>string\<close> of bytes (UTF-8); the literals of the source that are
  not ASCII are given by their bytes as they stand in the file. A \<^verbatim>\<open>datetime\<close> is a
  number of microseconds, so that \<^verbatim>\<open>timedelta(minutes=30)\<close> is \<open>1800000000\<close>.
\<close>

type_synonym user_id = int
type_synonym datetime = int

record event =
  ts :: datetime
  kind :: string
  amount :: rat

record user =
  weight :: "rat option"
  height :: "int option"
  age :: "int option"
  sex :: "string option"
  activity :: "int option"
  city :: "string option"
  manual_calorie_goal :: "int option"
  logged_water :: int
  logged_calories :: rat
  burned_calories :: int
  history :: "event list"
  last_temp :: "rat option"
  last_temp_ts :: "datetime option"
  last_date :: string

type_synonym users = "user_id \<rightharpoonup> user"

text \<open>
  What \<^verbatim>\<open>requests.get\<close> on the weather service comes back with, as far as
  \<^verbatim>\<open>get_temperature\<close> looks at it: an exception (\<open>Raised\<close>), or a response with its
  status code and the field \<^verbatim>\<open>main.temp\<close> of its body. \<open>Malformed\<close> stands for a body
  on which \<^verbatim>\<open>resp.json()\<close>, the two \<^verbatim>\<open>.get\<close> or \<^verbatim>\<open>float(temp)\<close> raise.
\<close>

datatype temp_field = Missing | Number rat | Malformed

datatype weather_reply = Raised | Response int temp_field

record food =
  name :: string
  kcal_per_100g :: rat

text \<open>
  Everything a handler reads from outside the store \<^verbatim>\<open>USERS\<close>: the clocks
  (\<^verbatim>\<open>date.today().isoformat()\<close>, \<^verbatim>\<open>datetime.utcnow()\<close>; one reading of each per
  handler call), the configured key, the two network lookups (the weather request of
  \<^verbatim>\<open>get_temperature\<close>, and the result of \<^verbatim>\<open>fetch_food_kcal\<close>), and the library
  functions \<^verbatim>\<open>float\<close> (\<open>None\<close> where it raises), \<^verbatim>\<open>str.lower\<close> and \<^verbatim>\<open>str.strip\<close>.
\<close>

record env =
  today :: string
  utcnow :: datetime
  OWM_API_KEY :: "string option"
  requests_get :: "string \<Rightarrow> weather_reply"
  fetch_food_kcal :: "string \<Rightarrow> food option"
  float_of :: "string \<Rightarrow> rat option"
  lower :: "string \<Rightarrow> string"
  strip :: "string \<Rightarrow> string"

subsection \<open>Truthiness, truncation, parsing\<close>

definition truthy :: "'a::zero option \<Rightarrow> bool" where
  "truthy x = (case x of None \<Rightarrow> False | Some v \<Rightarrow> v \<noteq> 0)"

definition truthy_str :: "string option \<Rightarrow> bool" where
  "truthy_str x = (case x of None \<Rightarrow> False | Some s \<Rightarrow> s \<noteq> [])"

text \<open>\<^verbatim>\<open>int(x)\<close> of a float: the fractional part is dropped, towards zero.\<close>

definition int_of_float :: "rat \<Rightarrow> int" where
  "int_of_float x = (if 0 \<le> x then \<lfloor>x\<rfloor> else \<lceil>x\<rceil>)"

definition replace_comma :: "string \<Rightarrow> string" where
  "replace_comma s = map (\<lambda>c. if c = CHR '','' then CHR ''.'' else c) s"

definition parse_float :: "env \<Rightarrow> string \<Rightarrow> rat option" where
  "parse_float e v = float_of e (replace_comma v)"

definition parse_int :: "env \<Rightarrow> string \<Rightarrow> int option" where
  "parse_int e v = map_option int_of_float (float_of e (replace_comma v))"

subsection \<open>The store and the daily rollover\<close>

definition new_user :: "string \<Rightarrow> user" where
  "new_user d =
     \<lparr>weight = None, height = None, age = None, sex = None, activity = None, city = None,
      manual_calorie_goal = None, logged_water = 0, logged_calories = 0,
      burned_calories = 0, history = [], last_temp = None, last_temp_ts = None,
      last_date = d\<rparr>"

definition rollover :: "string \<Rightarrow> user \<Rightarrow> user" where
  "rollover d u =
     (if last_date u \<noteq> d
      then u\<lparr>logged_water := 0, logged_calories := 0, burned_calories := 0,
             history := [], last_date := d\<rparr>
      else u)"

text \<open>
  \<^verbatim>\<open>get_user\<close> returns the dict that is in \<^verbatim>\<open>USERS\<close>; here it returns the record and
  the store that holds it, and a caller that assigns to the dict writes the record back.
\<close>

definition get_user :: "env \<Rightarrow> user_id \<Rightarrow> users \<Rightarrow> user \<times> users" where
  "get_user e uid us =
     (let u = rollover (today e) (case us uid of None \<Rightarrow> new_user (today e) | Some u \<Rightarrow> u)
      in (u, us(uid \<mapsto> u)))"

subsection \<open>Goals\<close>

definition calc_water_goal :: "rat option \<Rightarrow> int option \<Rightarrow> rat option \<Rightarrow> int" where
  "calc_water_goal w act temp_c =
     (case w of
        None \<Rightarrow> 0
      | Some wt \<Rightarrow>
          if wt = 0 then 0
          else
            let base = wt * 30;
                activity_bonus = (if truthy act then (the act div 30) * 500 else 0);
                heat_bonus =
                  (case temp_c of
                     None \<Rightarrow> 0
                   | Some t \<Rightarrow> if t > 30 then 1000 else if t > 25 then 500 else (0::int))
            in int_of_float (base + of_int activity_bonus + of_int heat_bonus))"

definition calc_calorie_goal ::
  "rat option \<Rightarrow> int option \<Rightarrow> int option \<Rightarrow> string option \<Rightarrow> int option \<Rightarrow> int" where
  "calc_calorie_goal w h a sx act =
     (if \<not> (truthy w \<and> truthy h \<and> truthy a) then 0
      else
        let s = (if sx = Some ''male'' then 5 else if sx = Some ''female'' then - 161 else (0::int));
            bmr = 10 * the w + (625 / 100) * of_int (the h) - 5 * of_int (the a) + of_int s;
            activity_bonus = (if truthy act then (the act div 30) * 100 else 0)
        in int_of_float (bmr + of_int activity_bonus))"

subsection \<open>The goals as the specification words them\<close>







subsection \<open>The temperature cache\<close>

text \<open>
  The third component of the result counts the requests sent to the weather service
  by the call (0 or 1).
\<close>

definition get_temperature :: "env \<Rightarrow> string option \<Rightarrow> user \<Rightarrow> rat option \<times> user \<times> nat" where
  "get_temperature e cty u =
     (if \<not> truthy_str cty \<or> \<not> truthy_str (OWM_API_KEY e) then (None, u, 0)
      else
        let now = utcnow e in
        if (case last_temp_ts u of None \<Rightarrow> False | Some last_ts \<Rightarrow> now - last_ts < 1800000000)
        then (last_temp u, u, 0)
        else
          (case requests_get e (the cty) of
             Raised \<Rightarrow> (None, u, 1)
           | Response status body \<Rightarrow>
               if status = 200
               then
                 (case body of
                    Malformed \<Rightarrow> (None, u, 1)
                  | Missing \<Rightarrow> (None, u, 1)
                  | Number t \<Rightarrow> (Some t, u\<lparr>last_temp := Some t, last_temp_ts := Some now\<rparr>, 1))
               else (None, u, 1)))"

subsection \<open>The profile gate and the history\<close>

definition ensure_profile :: "user \<Rightarrow> bool" where
  "ensure_profile u =
     (truthy (weight u) \<and> truthy (height u) \<and> truthy (age u) \<and> truthy (activity u))"

definition log_history :: "env \<Rightarrow> user \<Rightarrow> string \<Rightarrow> rat \<Rightarrow> user" where
  "log_history e u knd amt =
     u\<lparr>history := history u @ [\<lparr>ts = utcnow e, kind = knd, amount = amt\<rparr>]\<rparr>"

section \<open>The handlers\<close>

datatype profile_state =
  WEIGHT | HEIGHT | AGE | SEX | ACTIVITY | CITY | MANUAL_CALORIES | CALORIES_VALUE

datatype food_state = FOOD_NAME | FOOD_KCAL_MANUAL | FOOD_GRAMS

text \<open>What a conversation handler returns: the next state, or \<^verbatim>\<open>ConversationHandler.END\<close>.\<close>

datatype 's next_state = Goto 's | END

text \<open>\<^verbatim>\<open>context.user_data\<close> of the food conversation.\<close>

record user_data =
  food_name :: "string option"
  food_kcal :: "rat option"

text \<open>The numbers of the reply of \<^verbatim>\<open>check_progress\<close>, in the order of the message.\<close>

record progress =
  p_temp :: "rat option"
  p_water :: int
  p_water_goal :: int
  p_water_left :: int
  p_calories :: int
  p_calorie_goal :: int
  p_burned :: int
  p_balance :: int
  p_calories_left :: int

text \<open>
  The replies, by what they say and the values they show; the wording of the messages
  is left out. \<open>Profile_incomplete\<close> is the reply of a gated command to an incomplete
  profile.
\<close>

datatype reply =
    Ask_profile profile_state
  | Reject_profile profile_state
  | Profile_saved
  | Profile_cancelled
  | Profile_incomplete
  | Profile_shown "rat option" "int option" "int option" "int option" "string option" int int
  | Usage
  | Bad_number
  | Water_logged int int
  | Ask_food food_state
  | Reject_food food_state
  | Food_found string rat
  | Food_failed
  | Food_logged "string option" rat
  | Food_cancelled
  | Workout_logged string int int "int option"
  | Progress progress
  | No_data
  | Chart "datetime list" "rat list" int "rat list" int
  | Recommendations "int option" "int option"
  | Day_reset

subsection \<open>Profile setup\<close>

definition normalize_sex :: "env \<Rightarrow> string \<Rightarrow> string option" where
  "normalize_sex e txt =
     (let t = lower e (strip e txt) in
      if t \<in> set
        [''m'',
         ''male'',
         [CHR 0xE2, CHR 0x80, CHR 0x93, CHR 0xC2, CHR 0xBA],
         [CHR 0xE2, CHR 0x80, CHR 0x93, CHR 0xC2, CHR 0xBA, CHR 0xE2, CHR 0x80, CHR 0x94,
          CHR 0xC3, CHR 0x89, CHR 0xE2, CHR 0x80, CHR 0x93, CHR 0xE2, CHR 0x88, CHR 0x82],
         [CHR 0xE2, CHR 0x80, CHR 0x93, CHR 0xC2, CHR 0xBA, CHR 0xE2, CHR 0x80, CHR 0x94,
          CHR 0xC3, CHR 0x89, CHR 0xE2, CHR 0x80, CHR 0x93, CHR 0xE2, CHR 0x88, CHR 0x82,
          CHR 0xE2, CHR 0x80, CHR 0x94, CHR 0xC3, CHR 0xA1, CHR 0xE2, CHR 0x80, CHR 0x93,
          CHR 0xE2, CHR 0x88, CHR 0x8F, CHR 0xE2, CHR 0x80, CHR 0x93, CHR 0xCE, CHR 0xA9,
          CHR 0xE2, CHR 0x80, CHR 0x93, CHR 0xE2, CHR 0x88, CHR 0x9E]]
      then Some ''male''
      else if t \<in> set
        [''f'',
         ''female'',
         [CHR 0xE2, CHR 0x80, CHR 0x93, CHR 0xE2, CHR 0x88, CHR 0x82],
         [CHR 0xE2, CHR 0x80, CHR 0x93, CHR 0xE2, CHR 0x88, CHR 0x82, CHR 0xE2, CHR 0x80,
          CHR 0x93, CHR 0xC2, CHR 0xB5, CHR 0xE2, CHR 0x80, CHR 0x93, CHR 0xCE, CHR 0xA9],
         [CHR 0xE2, CHR 0x80, CHR 0x93, CHR 0xE2, CHR 0x88, CHR 0x82, CHR 0xE2, CHR 0x80,
          CHR 0x93, CHR 0xC2, CHR 0xB5, CHR 0xE2, CHR 0x80, CHR 0x93, CHR 0xCE, CHR 0xA9,
          CHR 0xE2, CHR 0x80, CHR 0x94, CHR 0xC3, CHR 0xA2, CHR 0xE2, CHR 0x80, CHR 0x93,
          CHR 0xE2, CHR 0x88, CHR 0x8F, CHR 0xE2, CHR 0x80, CHR 0x93, CHR 0xCE, CHR 0xA9,
          CHR 0xE2, CHR 0x80, CHR 0x93, CHR 0xE2, CHR 0x88, CHR 0x9E]]
      then Some ''female''
      else None)"

definition set_profile :: "reply \<times> profile_state next_state" where
  "set_profile = (Ask_profile WEIGHT, Goto WEIGHT)"

definition set_weight ::
  "env \<Rightarrow> user_id \<Rightarrow> string \<Rightarrow> users \<Rightarrow> reply \<times> profile_state next_state \<times> users" where
  "set_weight e uid txt us =
     (case parse_float e txt of
        None \<Rightarrow> (Reject_profile WEIGHT, Goto WEIGHT, us)
      | Some w \<Rightarrow>
          if w = 0 \<or> w \<le> 0 then (Reject_profile WEIGHT, Goto WEIGHT, us)
          else
            let (u, us') = get_user e uid us
            in (Ask_profile HEIGHT, Goto HEIGHT, us'(uid \<mapsto> u\<lparr>weight := Some w\<rparr>)))"

definition set_height ::
  "env \<Rightarrow> user_id \<Rightarrow> string \<Rightarrow> users \<Rightarrow> reply \<times> profile_state next_state \<times> users" where
  "set_height e uid txt us =
     (case parse_int e txt of
        None \<Rightarrow> (Reject_profile HEIGHT, Goto HEIGHT, us)
      | Some h \<Rightarrow>
          if h = 0 \<or> h \<le> 0 then (Reject_profile HEIGHT, Goto HEIGHT, us)
          else
            let (u, us') = get_user e uid us
            in (Ask_profile AGE, Goto AGE, us'(uid \<mapsto> u\<lparr>height := Some h\<rparr>)))"

definition set_age ::
  "env \<Rightarrow> user_id \<Rightarrow> string \<Rightarrow> users \<Rightarrow> reply \<times> profile_state next_state \<times> users" where
  "set_age e uid txt us =
     (case parse_int e txt of
        None \<Rightarrow> (Reject_profile AGE, Goto AGE, us)
      | Some a \<Rightarrow>
          if a = 0 \<or> a \<le> 0 then (Reject_profile AGE, Goto AGE, us)
          else
            let (u, us') = get_user e uid us
            in (Ask_profile SEX, Goto SEX, us'(uid \<mapsto> u\<lparr>age := Some a\<rparr>)))"

definition set_sex ::
  "env \<Rightarrow> user_id \<Rightarrow> string \<Rightarrow> users \<Rightarrow> reply \<times> profile_state next_state \<times> users" where
  "set_sex e uid txt us =
     (let t = strip e txt;
          sx = (if t \<noteq> ''-'' then normalize_sex e t else None);
          (u, us') = get_user e uid us
      in (Ask_profile ACTIVITY, Goto ACTIVITY, us'(uid \<mapsto> u\<lparr>sex := sx\<rparr>)))"

definition set_activity ::
  "env \<Rightarrow> user_id \<Rightarrow> string \<Rightarrow> users \<Rightarrow> reply \<times> profile_state next_state \<times> users" where
  "set_activity e uid txt us =
     (case parse_int e txt of
        None \<Rightarrow> (Reject_profile ACTIVITY, Goto ACTIVITY, us)
      | Some a \<Rightarrow>
          if a < 0 then (Reject_profile ACTIVITY, Goto ACTIVITY, us)
          else
            let (u, us') = get_user e uid us
            in (Ask_profile CITY, Goto CITY, us'(uid \<mapsto> u\<lparr>activity := Some a\<rparr>)))"

definition set_city ::
  "env \<Rightarrow> user_id \<Rightarrow> string \<Rightarrow> users \<Rightarrow> reply \<times> profile_state next_state \<times> users" where
  "set_city e uid txt us =
     (let c = strip e txt;
          (u, us') = get_user e uid us
      in (Ask_profile MANUAL_CALORIES, Goto MANUAL_CALORIES, us'(uid \<mapsto> u\<lparr>city := Some c\<rparr>)))"

definition set_manual_choice ::
  "env \<Rightarrow> user_id \<Rightarrow> string \<Rightarrow> users \<Rightarrow> reply \<times> profile_state next_state \<times> users" where
  "set_manual_choice e uid txt us =
     (let t = lower e (strip e txt) in
      if t \<in> set
        [[CHR 0xE2, CHR 0x80, CHR 0x93, CHR 0xC2, CHR 0xA5, CHR 0xE2, CHR 0x80, CHR 0x93,
          CHR 0xE2, CHR 0x88, CHR 0x9E],
         ''yes'',
         ''y'']
      then (Ask_profile CALORIES_VALUE, Goto CALORIES_VALUE, us)
      else
        let (u, us') = get_user e uid us
        in (Profile_saved, END, us'(uid \<mapsto> u\<lparr>manual_calorie_goal := None\<rparr>)))"

definition set_manual_calories ::
  "env \<Rightarrow> user_id \<Rightarrow> string \<Rightarrow> users \<Rightarrow> reply \<times> profile_state next_state \<times> users" where
  "set_manual_calories e uid txt us =
     (case parse_int e txt of
        None \<Rightarrow> (Reject_profile CALORIES_VALUE, Goto CALORIES_VALUE, us)
      | Some v \<Rightarrow>
          if v = 0 \<or> v \<le> 0 then (Reject_profile CALORIES_VALUE, Goto CALORIES_VALUE, us)
          else
            let (u, us') = get_user e uid us
            in (Profile_saved, END, us'(uid \<mapsto> u\<lparr>manual_calorie_goal := Some v\<rparr>)))"

definition cancel_profile :: "reply \<times> profile_state next_state" where
  "cancel_profile = (Profile_cancelled, END)"

subsection \<open>Workout rates\<close>

definition WORKOUT_KCAL_PER_MIN :: "string \<rightharpoonup> int" where
  "WORKOUT_KCAL_PER_MIN =
     map_of
      [([CHR 0xE2, CHR 0x80, CHR 0x93, CHR 0xC2, CHR 0xB1, CHR 0xE2, CHR 0x80, CHR 0x93,
          CHR 0xC2, CHR 0xB5, CHR 0xE2, CHR 0x80, CHR 0x93, CHR 0xE2, CHR 0x89, CHR 0xA5],
        10),
       ([CHR 0xE2, CHR 0x80, CHR 0x94, CHR 0xC3, CHR 0x96, CHR 0xE2, CHR 0x80, CHR 0x93,
          CHR 0xC3, CHR 0xA6, CHR 0xE2, CHR 0x80, CHR 0x93, CHR 0xC2, CHR 0xA5, CHR 0xE2,
          CHR 0x80, CHR 0x94, CHR 0xC3, CHR 0xA5, CHR 0xE2, CHR 0x80, CHR 0x93, CHR 0xC2,
          CHR 0xB1, CHR 0xE2, CHR 0x80, CHR 0x93, CHR 0xE2, CHR 0x88, CHR 0x9E],
        4),
       ([CHR 0xE2, CHR 0x80, CHR 0x93, CHR 0xE2, CHR 0x89, CHR 0xA4, CHR 0xE2, CHR 0x80,
          CHR 0x93, CHR 0xC2, CHR 0xB5, CHR 0xE2, CHR 0x80, CHR 0x93, CHR 0xC2, CHR 0xAA,
          CHR 0xE2, CHR 0x80, CHR 0x93, CHR 0xC3, CHR 0xA6, CHR 0xE2, CHR 0x80, CHR 0x94,
          CHR 0xC3, CHR 0x85, CHR 0xE2, CHR 0x80, CHR 0x93, CHR 0xE2, CHR 0x88, CHR 0x8F,
          CHR 0xE2, CHR 0x80, CHR 0x93, CHR 0xC3, CHR 0xB8, CHR 0xE2, CHR 0x80, CHR 0x93,
          CHR 0xC2, CHR 0xB5, CHR 0xE2, CHR 0x80, CHR 0x93, CHR 0xC2, CHR 0xA5],
        7),
       ([CHR 0xE2, CHR 0x80, CHR 0x93, CHR 0xC3, CHR 0xB8, CHR 0xE2, CHR 0x80, CHR 0x93,
          CHR 0xC2, CHR 0xAA, CHR 0xE2, CHR 0x80, CHR 0x93, CHR 0xE2, CHR 0x88, CHR 0x9E,
          CHR 0xE2, CHR 0x80, CHR 0x93, CHR 0xE2, CHR 0x89, CHR 0xA4, CHR 0xE2, CHR 0x80,
          CHR 0x93, CHR 0xE2, CHR 0x88, CHR 0x9E, CHR 0xE2, CHR 0x80, CHR 0x93, CHR 0xCE,
          CHR 0xA9, CHR 0xE2, CHR 0x80, CHR 0x93, CHR 0xE2, CHR 0x88, CHR 0x8F, CHR 0xE2,
          CHR 0x80, CHR 0x93, CHR 0xC2, CHR 0xB5],
        8),
       ([CHR 0xE2, CHR 0x80, CHR 0x94, CHR 0xC3, CHR 0x85, CHR 0xE2, CHR 0x80, CHR 0x93,
          CHR 0xE2, CHR 0x88, CHR 0x8F, CHR 0xE2, CHR 0x80, CHR 0x93, CHR 0xC2, CHR 0xAA,
          CHR 0xE2, CHR 0x80, CHR 0x93, CHR 0xC3, CHR 0xA6, CHR 0xE2, CHR 0x80, CHR 0x93,
          CHR 0xE2, CHR 0x89, CHR 0xA4, CHR 0xE2, CHR 0x80, CHR 0x93, CHR 0xE2, CHR 0x88,
          CHR 0x9E, CHR 0xE2, CHR 0x80, CHR 0x94, CHR 0xC3, CHR 0xA8],
        6),
       ([CHR 0xE2, CHR 0x80, CHR 0x93, CHR 0xCF, CHR 0x80, CHR 0xE2, CHR 0x80, CHR 0x93,
          CHR 0xC3, CHR 0xA6, CHR 0xE2, CHR 0x80, CHR 0x93, CHR 0xE2, CHR 0x89, CHR 0xA5,
          CHR 0xE2, CHR 0x80, CHR 0x93, CHR 0xE2, CHR 0x88, CHR 0x9E],
        3)]"

subsection \<open>Commands\<close>

definition show_profile :: "env \<Rightarrow> user_id \<Rightarrow> users \<Rightarrow> reply \<times> users" where
  "show_profile e uid us =
     (let (u, us') = get_user e uid us in
      if \<not> ensure_profile u then (Profile_incomplete, us')
      else
        let (temp, u1, n) = get_temperature e (city u) u;
            water_goal = calc_water_goal (weight u1) (activity u1) temp;
            calorie_goal =
              (if truthy (manual_calorie_goal u1) then the (manual_calorie_goal u1)
               else calc_calorie_goal (weight u1) (height u1) (age u1) (sex u1) (activity u1))
        in (Profile_shown (weight u1) (height u1) (age u1) (activity u1) (city u1)
              water_goal calorie_goal,
            us'(uid \<mapsto> u1)))"

definition log_water :: "env \<Rightarrow> user_id \<Rightarrow> string list \<Rightarrow> users \<Rightarrow> reply \<times> users" where
  "log_water e uid args us =
     (let (u, us') = get_user e uid us in
      if \<not> ensure_profile u then (Profile_incomplete, us')
      else if args = [] then (Usage, us')
      else
        (case parse_int e (hd args) of
           None \<Rightarrow> (Bad_number, us')
         | Some amt \<Rightarrow>
             if amt = 0 \<or> amt \<le> 0 then (Bad_number, us')
             else
               let u1 = log_history e (u\<lparr>logged_water := logged_water u + amt\<rparr>)
                          ''water'' (of_int amt);
                   (temp, u2, n) = get_temperature e (city u1) u1;
                   water_goal = calc_water_goal (weight u2) (activity u2) temp;
                   remaining = max (water_goal - logged_water u2) 0
               in (Water_logged amt remaining, us'(uid \<mapsto> u2))))"

text \<open>\<^verbatim>\<open>" ".join(xs)\<close>.\<close>

fun join :: "string list \<Rightarrow> string" where
  "join [] = []"
| "join [x] = x"
| "join (x # y # ys) = x @ '' '' @ join (y # ys)"

definition log_workout :: "env \<Rightarrow> user_id \<Rightarrow> string list \<Rightarrow> users \<Rightarrow> reply \<times> users" where
  "log_workout e uid args us =
     (let (u, us') = get_user e uid us in
      if \<not> ensure_profile u then (Profile_incomplete, us')
      else if length args < 2 then (Usage, us')
      else
        let workout_type = lower e (join (butlast args)) in
        (case parse_int e (last args) of
           None \<Rightarrow> (Bad_number, us')
         | Some minutes \<Rightarrow>
             if minutes = 0 \<or> minutes \<le> 0 then (Bad_number, us')
             else
               let kcal_per_min =
                     (case WORKOUT_KCAL_PER_MIN workout_type of Some r \<Rightarrow> r | None \<Rightarrow> 6);
                   burned = kcal_per_min * minutes;
                   u1 = log_history e (u\<lparr>burned_calories := burned_calories u + burned\<rparr>)
                          ''workout'' (of_int burned);
                   extra_water = (minutes div 30) * 200
               in (Workout_logged workout_type minutes burned
                     (if extra_water \<noteq> 0 then Some extra_water else None),
                   us'(uid \<mapsto> u1))))"

definition check_progress :: "env \<Rightarrow> user_id \<Rightarrow> users \<Rightarrow> reply \<times> users" where
  "check_progress e uid us =
     (let (u, us') = get_user e uid us in
      if \<not> ensure_profile u then (Profile_incomplete, us')
      else
        let (temp, u1, n) = get_temperature e (city u) u;
            water_goal = calc_water_goal (weight u1) (activity u1) temp;
            calorie_goal =
              (if truthy (manual_calorie_goal u1) then the (manual_calorie_goal u1)
               else calc_calorie_goal (weight u1) (height u1) (age u1) (sex u1) (activity u1));
            water_left = max (water_goal - logged_water u1) 0;
            calories_left = max (of_int calorie_goal - logged_calories u1) 0;
            balance = logged_calories u1 - of_int (burned_calories u1)
        in (Progress
              \<lparr>p_temp = temp, p_water = logged_water u1, p_water_goal = water_goal,
               p_water_left = water_left, p_calories = int_of_float (logged_calories u1),
               p_calorie_goal = calorie_goal, p_burned = burned_calories u1,
               p_balance = int_of_float balance,
               p_calories_left = int_of_float calories_left\<rparr>,
            us'(uid \<mapsto> u1)))"

text \<open>
  The loop of \<^verbatim>\<open>plot_progress\<close> over the history: the time of each event with the
  running totals of water and of calories after it.
\<close>

fun running_totals :: "rat \<Rightarrow> rat \<Rightarrow> event list \<Rightarrow> (datetime \<times> rat \<times> rat) list" where
  "running_totals w_total c_total [] = []"
| "running_totals w_total c_total (h # hs) =
     (let w' = (if kind h = ''water'' then w_total + amount h else w_total);
          c' = (if kind h = ''water'' then c_total
                else if kind h = ''food'' then c_total + amount h
                else if kind h = ''workout'' then c_total - amount h
                else c_total)
      in (ts h, w', c') # running_totals w' c' hs)"

definition plot_progress :: "env \<Rightarrow> user_id \<Rightarrow> users \<Rightarrow> reply \<times> users" where
  "plot_progress e uid us =
     (let (u, us') = get_user e uid us in
      if \<not> ensure_profile u then (Profile_incomplete, us')
      else
        let (temp, u1, n) = get_temperature e (city u) u;
            water_goal = calc_water_goal (weight u1) (activity u1) temp;
            calorie_goal =
              (if truthy (manual_calorie_goal u1) then the (manual_calorie_goal u1)
               else calc_calorie_goal (weight u1) (height u1) (age u1) (sex u1) (activity u1));
            rows = running_totals 0 0 (history u1)
        in if rows = [] then (No_data, us'(uid \<mapsto> u1))
           else (Chart (map fst rows) (map (fst \<circ> snd) rows) water_goal
                   (map (snd \<circ> snd) rows) calorie_goal,
                 us'(uid \<mapsto> u1)))"

definition recommend :: "env \<Rightarrow> user_id \<Rightarrow> users \<Rightarrow> reply \<times> users" where
  "recommend e uid us =
     (let (u, us') = get_user e uid us in
      if \<not> ensure_profile u then (Profile_incomplete, us')
      else
        let (temp, u1, n) = get_temperature e (city u) u;
            water_goal = calc_water_goal (weight u1) (activity u1) temp;
            calorie_goal =
              (if truthy (manual_calorie_goal u1) then the (manual_calorie_goal u1)
               else calc_calorie_goal (weight u1) (height u1) (age u1) (sex u1) (activity u1));
            water_left = max (water_goal - logged_water u1) 0;
            calorie_left = max (of_int calorie_goal - logged_calories u1) 0
        in (Recommendations
              (if water_left > 0 then Some (min water_left 500) else None)
              (if calorie_left > 0 then Some (int_of_float calorie_left) else None),
            us'(uid \<mapsto> u1)))"

definition reset_day :: "env \<Rightarrow> user_id \<Rightarrow> users \<Rightarrow> reply \<times> users" where
  "reset_day e uid us =
     (let (u, us') = get_user e uid us
      in (Day_reset,
          us'(uid \<mapsto> u\<lparr>logged_water := 0, logged_calories := 0, burned_calories := 0,
                        history := [], last_date := today e\<rparr>)))"

subsection \<open>Food logging\<close>

definition log_food_start ::
  "env \<Rightarrow> user_id \<Rightarrow> string list \<Rightarrow> user_data \<Rightarrow> users
     \<Rightarrow> reply \<times> food_state next_state \<times> user_data \<times> users" where
  "log_food_start e uid args ud us =
     (let (u, us') = get_user e uid us in
      if \<not> ensure_profile u then (Profile_incomplete, END, ud, us')
      else if args \<noteq> [] then
        let nm = strip e (join args);
            ud1 = ud\<lparr>food_name := Some nm\<rparr>
        in (case fetch_food_kcal e nm of
              Some f \<Rightarrow>
                (Food_found (name f) (kcal_per_100g f), Goto FOOD_GRAMS,
                 ud1\<lparr>food_kcal := Some (kcal_per_100g f)\<rparr>, us')
            | None \<Rightarrow> (Ask_food FOOD_KCAL_MANUAL, Goto FOOD_KCAL_MANUAL, ud1, us'))
      else (Ask_food FOOD_NAME, Goto FOOD_NAME, ud, us'))"

definition log_food_name ::
  "env \<Rightarrow> string \<Rightarrow> user_data \<Rightarrow> reply \<times> food_state next_state \<times> user_data" where
  "log_food_name e txt ud =
     (let nm = strip e txt;
          ud1 = ud\<lparr>food_name := Some nm\<rparr>
      in (case fetch_food_kcal e nm of
            Some f \<Rightarrow>
              (Food_found (name f) (kcal_per_100g f), Goto FOOD_GRAMS,
               ud1\<lparr>food_kcal := Some (kcal_per_100g f)\<rparr>)
          | None \<Rightarrow> (Ask_food FOOD_KCAL_MANUAL, Goto FOOD_KCAL_MANUAL, ud1)))"


definition log_food_grams ::
  "env \<Rightarrow> user_id \<Rightarrow> string \<Rightarrow> user_data \<Rightarrow> users
     \<Rightarrow> reply \<times> food_state next_state \<times> user_data \<times> users" where
  "log_food_grams e uid txt ud us =
     (case parse_float e txt of
        None \<Rightarrow> (Reject_food FOOD_GRAMS, Goto FOOD_GRAMS, ud, us)
      | Some grams \<Rightarrow>
          if grams \<le> 0 then (Reject_food FOOD_GRAMS, Goto FOOD_GRAMS, ud, us)
          else
            let (u, us') = get_user e uid us in
            (case food_kcal ud of
               None \<Rightarrow> (Food_failed, END, ud, us')
             | Some k \<Rightarrow>
                 let consumed = k * grams / 100;
                     u1 = log_history e (u\<lparr>logged_calories := logged_calories u + consumed\<rparr>)
                            ''food'' consumed
                 in (Food_logged (food_name ud) consumed, END,
                     ud\<lparr>food_kcal := None, food_name := None\<rparr>, us'(uid \<mapsto> u1))))"

definition log_food_cancel :: "user_data \<Rightarrow> reply \<times> food_state next_state \<times> user_data" where
  "log_food_cancel ud = (Food_cancelled, END, ud\<lparr>food_kcal := None, food_name := None\<rparr>)"

subsection \<open>The specification's words for the temperature cache\<close>

text \<open>
  A refetch fails on an exception, a status other than 200, or a body without a usable
  temperature. A cached entry is fresh while less than 30 minutes have passed since its
  timestamp. The lookup is configured when the city and the key are both set and not
  empty.
\<close>

fun refetch_fails :: "weather_reply \<Rightarrow> bool" where
  "refetch_fails Raised = True"
| "refetch_fails (Response status body) = (status \<noteq> 200 \<or> body = Missing \<or> body = Malformed)"

definition cache_fresh :: "env \<Rightarrow> user \<Rightarrow> bool" where
  "cache_fresh e u =
     (case last_temp_ts u of None \<Rightarrow> False | Some t0 \<Rightarrow> utcnow e - t0 < 30 * 60 * 1000000)"

definition configured :: "env \<Rightarrow> string option \<Rightarrow> bool" where
  "configured e cty =
     (cty \<noteq> None \<and> cty \<noteq> Some [] \<and> OWM_API_KEY e \<noteq> None \<and> OWM_API_KEY e \<noteq> Some [])"

section \<open>Runs of the bot\<close>

text \<open>
  The stores the bot can be in: \<^verbatim>\<open>USERS\<close> is empty when the process starts, and
  every handler that touches it may run next, for any user, text and surroundings.
  (Which handler the library dispatches to for a message is not modelled; every order
  of handler calls is allowed.)
\<close>

inductive reachable :: "users \<Rightarrow> bool" where
  start: "reachable Map.empty"
| weight: "reachable us \<Longrightarrow> reachable (snd (snd (set_weight e uid txt us)))"
| height: "reachable us \<Longrightarrow> reachable (snd (snd (set_height e uid txt us)))"
| age: "reachable us \<Longrightarrow> reachable (snd (snd (set_age e uid txt us)))"
| sex: "reachable us \<Longrightarrow> reachable (snd (snd (set_sex e uid txt us)))"
| activity: "reachable us \<Longrightarrow> reachable (snd (snd (set_activity e uid txt us)))"
| city: "reachable us \<Longrightarrow> reachable (snd (snd (set_city e uid txt us)))"
| manual_choice: "reachable us \<Longrightarrow> reachable (snd (snd (set_manual_choice e uid txt us)))"
| manual_calories: "reachable us \<Longrightarrow> reachable (snd (snd (set_manual_calories e uid txt us)))"
| profile: "reachable us \<Longrightarrow> reachable (snd (show_profile e uid us))"
| water: "reachable us \<Longrightarrow> reachable (snd (log_water e uid args us))"
| workout: "reachable us \<Longrightarrow> reachable (snd (log_workout e uid args us))"
| progress: "reachable us \<Longrightarrow> reachable (snd (check_progress e uid us))"
| plot: "reachable us \<Longrightarrow> reachable (snd (plot_progress e uid us))"
| recommend: "reachable us \<Longrightarrow> reachable (snd (recommend e uid us))"
| reset: "reachable us \<Longrightarrow> reachable (snd (reset_day e uid us))"
| food_start: "reachable us \<Longrightarrow> reachable (snd (snd (snd (log_food_start e uid args ud us))))"
| food_grams: "reachable us \<Longrightarrow> reachable (snd (snd (snd (log_food_grams e uid txt ud us))))"

text \<open>What the setters let into a record: positive weight, height, age and manual goal,
  and activity minutes that are not negative.\<close>

definition positive :: "'a::{zero,ord} option \<Rightarrow> bool" where
  "positive x = (case x of None \<Rightarrow> True | Some v \<Rightarrow> 0 < v)"

definition user_ok :: "user \<Rightarrow> bool" where
  "user_ok u =
     (positive (weight u) \<and> positive (height u) \<and> positive (age u)
      \<and> positive (manual_calorie_goal u)
      \<and> (case activity u of None \<Rightarrow> True | Some a \<Rightarrow> 0 \<le> a))"

text \<open>
  The record \<^verbatim>\<open>get_user\<close> returns, and the stores whose records all satisfy \<open>user_ok\<close>.
\<close>

definition store_ok :: "users \<Rightarrow> bool" where
  "store_ok us = (\<forall>uid u. us uid = Some u \<longrightarrow> user_ok u)"

definition resolved :: "env \<Rightarrow> user_id \<Rightarrow> users \<Rightarrow> user" where
  "resolved e uid us = fst (get_user e uid us)"

subsection \<open>Surroundings to run the handlers in\<close>

text \<open>
  \<^verbatim>\<open>float\<close> on a plain decimal numeral: an optional sign, digits, and optionally a point
  and more digits. (The texts \<^verbatim>\<open>float\<close> reads beyond these, with an exponent, blanks
  or underscores, are not covered: \<open>None\<close>.)
\<close>

definition digit_of :: "char \<rightharpoonup> nat" where
  "digit_of =
     map_of
      [(CHR ''0'', 0), (CHR ''1'', 1), (CHR ''2'', 2), (CHR ''3'', 3), (CHR ''4'', 4),
       (CHR ''5'', 5), (CHR ''6'', 6), (CHR ''7'', 7), (CHR ''8'', 8), (CHR ''9'', 9)]"

fun digits_value :: "nat \<Rightarrow> string \<Rightarrow> nat option" where
  "digits_value acc [] = Some acc"
| "digits_value acc (c # cs) =
     (case digit_of c of None \<Rightarrow> None | Some d \<Rightarrow> digits_value (10 * acc + d) cs)"

definition unsigned_decimal :: "string \<Rightarrow> rat option" where
  "unsigned_decimal s =
     (let ip = takeWhile (\<lambda>c. c \<noteq> CHR ''.'') s;
          fp = drop (length ip + 1) s
      in if ip = [] \<and> fp = [] then None
         else
           (case (digits_value 0 ip, digits_value 0 fp) of
              (Some i, Some f) \<Rightarrow> Some (of_nat i + of_nat f / 10 ^ length fp)
            | _ \<Rightarrow> None))"

definition decimal :: "string \<Rightarrow> rat option" where
  "decimal s =
     (case s of
        [] \<Rightarrow> None
      | c # cs \<Rightarrow>
          if c = CHR ''-'' then map_option uminus (unsigned_decimal cs)
          else if c = CHR ''+'' then unsigned_decimal cs
          else unsigned_decimal s)"

text \<open>
  Surroundings with no weather key, a weather service and a food lookup that fail, and
  texts that are already trimmed and in lower case.
\<close>

definition quiet_env :: "string \<Rightarrow> datetime \<Rightarrow> env" where
  "quiet_env d t =
     \<lparr>today = d, utcnow = t, OWM_API_KEY = None, requests_get = (\<lambda>c. Raised),
      fetch_food_kcal = (\<lambda>n. None), float_of = decimal, lower = (\<lambda>s. s),
      strip = (\<lambda>s. s)\<rparr>"

text \<open>Surroundings with a weather key, at time \<open>t\<close>, where the weather service answers \<open>r\<close>.\<close>

definition keyed_env :: "datetime \<Rightarrow> weather_reply \<Rightarrow> env" where
  "keyed_env t r =
     (quiet_env ''2024-01-01'' t)\<lparr>OWM_API_KEY := Some ''key'', requests_get := (\<lambda>c. r)\<rparr>"

text \<open>A new record with a city, and a record with a day's entries of the first of January.\<close>

definition oslo_user :: user where
  "oslo_user = (new_user ''2024-01-01'')\<lparr>city := Some ''Oslo''\<rparr>"

definition jan1_user :: user where
  "jan1_user =
     \<lparr>weight = Some 70, height = Some 175, age = Some 30, sex = Some ''male'',
      activity = Some 60, city = Some ''Oslo'', manual_calorie_goal = None,
      logged_water = 500, logged_calories = 375, burned_calories = 390,
      history = [\<lparr>ts = 5, kind = ''water'', amount = 500\<rparr>], last_temp = Some 21,
      last_temp_ts = Some 7, last_date = ''2024-01-01''\<rparr>"

text \<open>The calorie goal a reply shows, if it shows one.\<close>

fun shown_calorie_goal :: "reply \<Rightarrow> int option" where
  "shown_calorie_goal (Profile_shown w h a act c wg cg) = Some cg"
| "shown_calorie_goal (Progress p) = Some (p_calorie_goal p)"
| "shown_calorie_goal (Chart tms ws wg cs cg) = Some cg"
| "shown_calorie_goal r = None"

text \<open>
  A run of the profile setup for user 1 on the first of January: weight 70, height 175,
  age 30 and the activity text \<open>act\<close>; then a manual goal of 2000; then 200 ml of water.
\<close>

definition day_env :: env where
  "day_env = quiet_env ''2024-01-01'' 0"

definition basic_store :: users where
  "basic_store =
     snd (snd (set_age day_env 1 ''30''
       (snd (snd (set_height day_env 1 ''175''
         (snd (snd (set_weight day_env 1 ''70'' Map.empty))))))))"

definition filled_store :: "string \<Rightarrow> users" where
  "filled_store act = snd (snd (set_activity day_env 1 act basic_store))"

definition manual_store :: users where
  "manual_store = snd (snd (set_manual_calories day_env 1 ''2000'' (filled_store ''60'')))"

definition logged_store :: users where
  "logged_store = snd (log_water day_env 1 [''200''] manual_store)"


section \<open>Properties\<close>

lemma int_of_float_nonneg: "0 \<le> x \<Longrightarrow> int_of_float x = \<lfloor>x\<rfloor>"
  by (simp add: int_of_float_def)



subsection \<open>The water goal\<close>



subsection \<open>The calorie goal\<close>



subsection \<open>The daily rollover\<close>

text \<open>
  C2. Resolving a stored record on a date other than its last-reset date zeroes logged
  water, logged calories and burned calories and empties the history, all in one step,
  and sets the last-reset date to today; resolving a record on its last-reset date
  changes nothing, so no accumulator is reset without the others; and resolving again
  on the same date gives the same record and store (the rollover is idempotent within a
  day).
\<close>

theorem get_user_rollover:
  "(us uid = Some u \<and> last_date u \<noteq> today e \<longrightarrow>
      get_user e uid us =
        (u\<lparr>logged_water := 0, logged_calories := 0, burned_calories := 0, history := [],
           last_date := today e\<rparr>,
         us(uid \<mapsto> u\<lparr>logged_water := 0, logged_calories := 0, burned_calories := 0,
                      history := [], last_date := today e\<rparr>)))
   \<and> (us uid = Some u \<and> last_date u = today e \<longrightarrow> get_user e uid us = (u, us))
   \<and> (today e' = today e \<longrightarrow>
        get_user e' uid (snd (get_user e uid us)) = get_user e uid us)"
proof (intro conjI impI)
  assume "us uid = Some u \<and> last_date u \<noteq> today e"
  then show "get_user e uid us =
        (u\<lparr>logged_water := 0, logged_calories := 0, burned_calories := 0, history := [],
           last_date := today e\<rparr>,
         us(uid \<mapsto> u\<lparr>logged_water := 0, logged_calories := 0, burned_calories := 0,
                      history := [], last_date := today e\<rparr>))"
    by (simp add: get_user_def rollover_def Let_def)
next
  assume a: "us uid = Some u \<and> last_date u = today e"
  then have "us(uid \<mapsto> u) = us"
    by (simp add: map_upd_triv)
  with a show "get_user e uid us = (u, us)"
    by (simp add: get_user_def rollover_def Let_def)
next
  assume "today e' = today e"
  then show "get_user e' uid (snd (get_user e uid us)) = get_user e uid us"
    by (simp add: get_user_def rollover_def new_user_def Let_def)
qed

theorem get_user_rollover_witness:
  "get_user (quiet_env ''2024-01-02'' 9) 1 [1 \<mapsto> jan1_user] =
     (jan1_user\<lparr>logged_water := 0, logged_calories := 0, burned_calories := 0, history := [],
        last_date := ''2024-01-02''\<rparr>,
      [1 \<mapsto> jan1_user\<lparr>logged_water := 0, logged_calories := 0, burned_calories := 0,
                       history := [], last_date := ''2024-01-02''\<rparr>])
   \<and> get_user (quiet_env ''2024-01-01'' 9) 1 [1 \<mapsto> jan1_user] = (jan1_user, [1 \<mapsto> jan1_user])
   \<and> get_user (quiet_env ''2024-01-02'' 10) 1
         (snd (get_user (quiet_env ''2024-01-02'' 9) 1 [1 \<mapsto> jan1_user]))
       = get_user (quiet_env ''2024-01-02'' 9) 1 [1 \<mapsto> jan1_user]"
proof -
  let ?e1 = "quiet_env ''2024-01-02'' 9" and ?e2 = "quiet_env ''2024-01-02'' 10"
  let ?e0 = "quiet_env ''2024-01-01'' 9" and ?us = "[1 \<mapsto> jan1_user]"
  have t: "\<And>d n. today (quiet_env d n) = d"
    by (simp add: quiet_env_def)
  have l: "last_date jan1_user = ''2024-01-01''"
    by (simp add: jan1_user_def)
  have h1: "?us 1 = Some jan1_user \<and> last_date jan1_user \<noteq> today ?e1"
    and h2: "?us 1 = Some jan1_user \<and> last_date jan1_user = today ?e0"
    and h3: "today ?e2 = today ?e1"
    by (simp_all add: t l)
  note r1 = get_user_rollover [of ?us 1 jan1_user ?e1 ?e2]
  note r0 = get_user_rollover [of ?us 1 jan1_user ?e0]
  from r1 h1 have c1: "get_user ?e1 1 ?us =
        (jan1_user\<lparr>logged_water := 0, logged_calories := 0, burned_calories := 0,
           history := [], last_date := today ?e1\<rparr>,
         ?us(1 \<mapsto> jan1_user\<lparr>logged_water := 0, logged_calories := 0, burned_calories := 0,
                      history := [], last_date := today ?e1\<rparr>))"
    by blast
  from r0 h2 have c2: "get_user ?e0 1 ?us = (jan1_user, ?us)"
    by blast
  from r1 h3 have c3: "get_user ?e2 1 (snd (get_user ?e1 1 ?us)) = get_user ?e1 1 ?us"
    by blast
  from c1 have c1': "get_user ?e1 1 ?us =
        (jan1_user\<lparr>logged_water := 0, logged_calories := 0, burned_calories := 0,
           history := [], last_date := ''2024-01-02''\<rparr>,
         [1 \<mapsto> jan1_user\<lparr>logged_water := 0, logged_calories := 0, burned_calories := 0,
                      history := [], last_date := ''2024-01-02''\<rparr>])"
    by (simp add: t)
  from c1' c2 c3 show ?thesis
    by blast
qed

subsection \<open>The temperature cache\<close>

lemma configured_truthy: "configured e cty = (truthy_str cty \<and> truthy_str (OWM_API_KEY e))"
  by (auto simp: configured_def truthy_str_def split: option.splits)

lemma get_temperature_off: "\<not> configured e cty \<Longrightarrow> get_temperature e cty u = (None, u, 0)"
  by (auto simp: get_temperature_def configured_truthy)

lemma get_temperature_hit:
  "configured e cty \<Longrightarrow> cache_fresh e u \<Longrightarrow> get_temperature e cty u = (last_temp u, u, 0)"
  by (auto simp: get_temperature_def configured_truthy cache_fresh_def Let_def split: option.splits)

lemma get_temperature_fail:
  "configured e cty \<Longrightarrow> \<not> cache_fresh e u \<Longrightarrow> refetch_fails (requests_get e (the cty))
     \<Longrightarrow> get_temperature e cty u = (None, u, 1)"
  by (cases "requests_get e (the cty)")
     (auto simp: get_temperature_def configured_truthy cache_fresh_def Let_def
           split: option.splits temp_field.splits)

lemma get_temperature_fetch:
  "configured e cty \<Longrightarrow> \<not> cache_fresh e u \<Longrightarrow> requests_get e (the cty) = Response 200 (Number t)
     \<Longrightarrow> get_temperature e cty u = (Some t, u\<lparr>last_temp := Some t, last_temp_ts := Some (utcnow e)\<rparr>, 1)"
  by (auto simp: get_temperature_def configured_truthy cache_fresh_def Let_def
           split: option.splits temp_field.splits)

lemma refetch_cases: "\<not> refetch_fails r \<Longrightarrow> \<exists>t. r = Response 200 (Number t)"
proof (cases r)
  case Raised
  assume "\<not> refetch_fails r"
  with Raised show ?thesis by simp
next
  case (Response status body)
  assume "\<not> refetch_fails r"
  with Response show ?thesis by (cases body) auto
qed

lemma get_temperature_calls:
  "snd (snd (get_temperature e cty u)) = (if configured e cty \<and> \<not> cache_fresh e u then 1 else 0)"
proof (cases "configured e cty")
  case False
  then show ?thesis by (simp add: get_temperature_off)
next
  case c: True
  show ?thesis
  proof (cases "cache_fresh e u")
    case True
    with c show ?thesis by (simp add: get_temperature_hit)
  next
    case f: False
    show ?thesis
    proof (cases "refetch_fails (requests_get e (the cty))")
      case True
      with c f show ?thesis by (simp add: get_temperature_fail)
    next
      case False
      then obtain t where "requests_get e (the cty) = Response 200 (Number t)"
        using refetch_cases by blast
      with c f show ?thesis by (simp add: get_temperature_fetch)
    qed
  qed
qed

lemma get_temperature_fetched:
  assumes "get_temperature e cty u = (r, u1, n)" and "n = 1" and "r \<noteq> None"
  shows "last_temp_ts u1 = Some (utcnow e)"
proof -
  from assms(1,2) have n: "snd (snd (get_temperature e cty u)) = 1" by simp
  then have c: "configured e cty" and f: "\<not> cache_fresh e u"
    by (simp_all add: get_temperature_calls split: if_splits)
  show ?thesis
  proof (cases "refetch_fails (requests_get e (the cty))")
    case True
    with c f assms show ?thesis by (simp add: get_temperature_fail)
  next
    case False
    then obtain t where "requests_get e (the cty) = Response 200 (Number t)"
      using refetch_cases by blast
    with c f assms(1) show ?thesis by (auto simp: get_temperature_fetch)
  qed
qed

lemma keyed_env_simps:
  "utcnow (keyed_env t r) = t" "OWM_API_KEY (keyed_env t r) = Some ''key''"
  "requests_get (keyed_env t r) c = r"
  by (simp_all add: keyed_env_def quiet_env_def)

lemma oslo_user_simps:
  "last_temp_ts oslo_user = None" "last_temp oslo_user = None"
  by (simp_all add: oslo_user_def new_user_def)

text \<open>
  C5. The lookup returns absent, without a request, when the city is empty or the key is
  not configured. Otherwise, when the cached entry is less than 30 minutes old, it
  returns the cached value without a request. Otherwise, when the refetch fails (an
  exception, a status other than 200, or no usable temperature), it returns absent and
  leaves the stored value and timestamp as they were.
\<close>

theorem get_temperature_cache:
  "(\<not> configured e cty \<longrightarrow> get_temperature e cty u = (None, u, 0))
   \<and> (configured e cty \<and> cache_fresh e u \<longrightarrow> get_temperature e cty u = (last_temp u, u, 0))
   \<and> (configured e cty \<and> \<not> cache_fresh e u \<and> refetch_fails (requests_get e (the cty))
        \<longrightarrow> get_temperature e cty u = (None, u, 1))"
  by (simp add: get_temperature_off get_temperature_hit get_temperature_fail)

theorem get_temperature_cache_witness:
  "get_temperature (quiet_env ''2024-01-01'' 0) (Some ''Oslo'') oslo_user = (None, oslo_user, 0)
   \<and> get_temperature (keyed_env 60000000 Raised) (Some ''Oslo'')
        (oslo_user\<lparr>last_temp := Some 21, last_temp_ts := Some 0\<rparr>)
      = (Some 21, oslo_user\<lparr>last_temp := Some 21, last_temp_ts := Some 0\<rparr>, 0)
   \<and> get_temperature (keyed_env 1860000000 (Response 503 Missing)) (Some ''Oslo'')
        (oslo_user\<lparr>last_temp := Some 21, last_temp_ts := Some 0\<rparr>)
      = (None, oslo_user\<lparr>last_temp := Some 21, last_temp_ts := Some 0\<rparr>, 1)"
  using get_temperature_cache [of "quiet_env ''2024-01-01'' 0" "Some ''Oslo''" oslo_user]
        get_temperature_cache [of "keyed_env 60000000 Raised" "Some ''Oslo''"
                                  "oslo_user\<lparr>last_temp := Some 21, last_temp_ts := Some 0\<rparr>"]
        get_temperature_cache [of "keyed_env 1860000000 (Response 503 Missing)" "Some ''Oslo''"
                                  "oslo_user\<lparr>last_temp := Some 21, last_temp_ts := Some 0\<rparr>"]
  by (simp add: configured_def cache_fresh_def keyed_env_simps quiet_env_def)

text \<open>
  C6, as the claim states it, fails: a failed fetch stores nothing, so the next call
  fetches again. Here two calls one minute apart, with a weather service that raises,
  send two requests.
\<close>

theorem two_gets_counterexample:
  "\<bar>utcnow (keyed_env 60000000 Raised) - utcnow (keyed_env 0 Raised)\<bar> < 5 * 60 * 1000000
   \<and> snd (snd (get_temperature (keyed_env 0 Raised) (Some ''Oslo'') oslo_user))
       + snd (snd (get_temperature (keyed_env 60000000 Raised) (Some ''Oslo'')
           (fst (snd (get_temperature (keyed_env 0 Raised) (Some ''Oslo'') oslo_user)))))
       = 2"
  by (simp add: get_temperature_def keyed_env_simps oslo_user_simps truthy_str_def)

text \<open>
  C6, amended. Of two calls for the same user less than 5 minutes apart, where the first
  did not end in a failed fetch, at most one sends a request. And a call with a city and
  a key, made more than 30 minutes after the stored timestamp, sends a request, whatever
  the earlier fetches did.
\<close>

theorem get_temperature_two_calls:
  "(\<bar>utcnow e2 - utcnow e1\<bar> < 5 * 60 * 1000000 \<and> get_temperature e1 c1 u = (r1, u1, n1)
      \<and> \<not> (n1 = 1 \<and> r1 = None)
      \<longrightarrow> n1 + snd (snd (get_temperature e2 c2 u1)) \<le> 1)
   \<and> (configured e c \<and> last_temp_ts v = Some t0 \<and> 30 * 60 * 1000000 < utcnow e - t0
      \<longrightarrow> snd (snd (get_temperature e c v)) = 1)"
proof (intro conjI impI)
  assume a: "\<bar>utcnow e2 - utcnow e1\<bar> < 5 * 60 * 1000000 \<and> get_temperature e1 c1 u = (r1, u1, n1)
      \<and> \<not> (n1 = 1 \<and> r1 = None)"
  then have g: "get_temperature e1 c1 u = (r1, u1, n1)" by simp
  then have "n1 = snd (snd (get_temperature e1 c1 u))" by simp
  then have n1: "n1 = 0 \<or> n1 = 1" by (simp add: get_temperature_calls)
  show "n1 + snd (snd (get_temperature e2 c2 u1)) \<le> 1"
  proof (cases "n1 = 0")
    case True
    then show ?thesis by (simp add: get_temperature_calls)
  next
    case False
    with n1 a have "n1 = 1" and "r1 \<noteq> None" by auto
    with g have "last_temp_ts u1 = Some (utcnow e1)"
      by (rule get_temperature_fetched)
    moreover from a have "utcnow e2 - utcnow e1 < 30 * 60 * 1000000" by linarith
    ultimately have "cache_fresh e2 u1" by (simp add: cache_fresh_def)
    with \<open>n1 = 1\<close> show ?thesis by (simp add: get_temperature_calls)
  qed
next
  assume "configured e c \<and> last_temp_ts v = Some t0 \<and> 30 * 60 * 1000000 < utcnow e - t0"
  then show "snd (snd (get_temperature e c v)) = 1"
    by (simp add: get_temperature_calls cache_fresh_def)
qed

theorem get_temperature_two_calls_witness:
  "1 + snd (snd (get_temperature (keyed_env 60000000 Raised) (Some ''Oslo'')
       (oslo_user\<lparr>last_temp := Some 21, last_temp_ts := Some 0\<rparr>))) \<le> (1::nat)
   \<and> snd (snd (get_temperature (keyed_env 1860000000 Raised) (Some ''Oslo'')
       (oslo_user\<lparr>last_temp := Some 21, last_temp_ts := Some 0\<rparr>))) = 1"
proof -
  let ?e1 = "keyed_env 0 (Response 200 (Number 21))" and ?e2 = "keyed_env 60000000 Raised"
  let ?e3 = "keyed_env 1860000000 Raised"
  let ?u1 = "oslo_user\<lparr>last_temp := Some 21, last_temp_ts := Some 0\<rparr>"
  have g: "get_temperature ?e1 (Some ''Oslo'') oslo_user = (Some 21, ?u1, 1)"
    by (simp add: get_temperature_def keyed_env_simps oslo_user_simps truthy_str_def)
  have h1: "\<bar>utcnow ?e2 - utcnow ?e1\<bar> < 5 * 60 * 1000000
        \<and> get_temperature ?e1 (Some ''Oslo'') oslo_user = (Some 21, ?u1, 1)
        \<and> \<not> ((1::nat) = 1 \<and> Some (21::rat) = None)"
    using g by (simp add: keyed_env_simps)
  have h2: "configured ?e3 (Some ''Oslo'') \<and> last_temp_ts ?u1 = Some 0
        \<and> 30 * 60 * 1000000 < utcnow ?e3 - 0"
    by (simp add: configured_def keyed_env_simps)
  from get_temperature_two_calls
         [where ?e2.0 = ?e2 and ?e1.0 = ?e1 and ?c1.0 = "Some ''Oslo''" and u = oslo_user
            and ?r1.0 = "Some 21" and ?u1.0 = ?u1 and ?n1.0 = 1 and ?c2.0 = "Some ''Oslo''"
            and e = ?e3 and c = "Some ''Oslo''" and v = ?u1 and ?t0.0 = 0]
       h1 h2
  show ?thesis by blast
qed

subsection \<open>The reset of the day\<close>

text \<open>
  C10. For every stored record, complete or not, \<^verbatim>\<open>reset_day\<close> zeroes the three
  accumulators, clears the history and sets the last-reset date to today, and leaves the
  profile fields (weight, height, age, sex, activity, city, manual calorie goal) and
  the temperature cache (value and timestamp) as they were.
\<close>

theorem reset_day_frame:
  assumes "us uid = Some u"
  shows "\<exists>r. snd (reset_day e uid us) = us(uid \<mapsto> r)
           \<and> logged_water r = 0 \<and> logged_calories r = 0 \<and> burned_calories r = 0
           \<and> history r = [] \<and> last_date r = today e
           \<and> weight r = weight u \<and> height r = height u \<and> age r = age u \<and> sex r = sex u
           \<and> activity r = activity u \<and> city r = city u
           \<and> manual_calorie_goal r = manual_calorie_goal u
           \<and> last_temp r = last_temp u \<and> last_temp_ts r = last_temp_ts u"
proof -
  let ?r = "(rollover (today e) u)\<lparr>logged_water := 0, logged_calories := 0,
              burned_calories := 0, history := [], last_date := today e\<rparr>"
  from assms have "snd (reset_day e uid us) = us(uid \<mapsto> ?r)"
    by (simp add: reset_day_def get_user_def Let_def)
  then show ?thesis
    by (intro exI [of _ ?r]) (simp add: rollover_def)
qed

theorem reset_day_frame_witness:
  "\<exists>r. snd (reset_day (quiet_env ''2024-01-02'' 9) 1 [1 \<mapsto> jan1_user\<lparr>height := None\<rparr>])
          = [1 \<mapsto> jan1_user\<lparr>height := None\<rparr>](1 \<mapsto> r)
       \<and> logged_water r = 0 \<and> logged_calories r = 0 \<and> burned_calories r = 0
       \<and> history r = [] \<and> last_date r = ''2024-01-02''
       \<and> weight r = Some 70 \<and> height r = None \<and> age r = Some 30 \<and> sex r = Some ''male''
       \<and> activity r = Some 60 \<and> city r = Some ''Oslo''
       \<and> manual_calorie_goal r = None
       \<and> last_temp r = Some 21 \<and> last_temp_ts r = Some 7"
  using reset_day_frame [of "[1 \<mapsto> jan1_user\<lparr>height := None\<rparr>]" 1
                            "jan1_user\<lparr>height := None\<rparr>" "quiet_env ''2024-01-02'' 9"]
  by (simp add: jan1_user_def quiet_env_def)

subsection \<open>What every reachable store satisfies\<close>

lemma get_user_resolved: "get_user e uid us = (resolved e uid us, us(uid \<mapsto> resolved e uid us))"
  by (simp add: resolved_def get_user_def Let_def)

lemma store_ok_upd: "store_ok us \<Longrightarrow> user_ok u \<Longrightarrow> store_ok (us(uid \<mapsto> u))"
  by (simp add: store_ok_def)

lemma user_ok_resolved: "store_ok us \<Longrightarrow> user_ok (resolved e uid us)"
  by (auto simp: resolved_def get_user_def Let_def rollover_def store_ok_def user_ok_def
                 new_user_def positive_def split: option.splits)

lemma get_temperature_frame:
  "\<exists>t s. fst (snd (get_temperature e c u)) = u\<lparr>last_temp := t, last_temp_ts := s\<rparr>"
proof (cases "configured e c \<and> \<not> cache_fresh e u \<and> \<not> refetch_fails (requests_get e (the c))")
  case True
  then obtain t where "requests_get e (the c) = Response 200 (Number t)"
    using refetch_cases by blast
  with True have "get_temperature e c u
      = (Some t, u\<lparr>last_temp := Some t, last_temp_ts := Some (utcnow e)\<rparr>, 1)"
    by (simp add: get_temperature_fetch)
  then show ?thesis by (metis fst_conv snd_conv)
next
  case False
  have "fst (snd (get_temperature e c u)) = u"
  proof (cases "configured e c")
    case False
    then show ?thesis by (simp add: get_temperature_off)
  next
    case c: True
    show ?thesis
    proof (cases "cache_fresh e u")
      case True
      with c show ?thesis by (simp add: get_temperature_hit)
    next
      case f: False
      with c \<open>\<not> (configured e c \<and> \<not> cache_fresh e u
                 \<and> \<not> refetch_fails (requests_get e (the c)))\<close>
      have "refetch_fails (requests_get e (the c))" by simp
      with c f show ?thesis by (simp add: get_temperature_fail)
    qed
  qed
  then have "fst (snd (get_temperature e c u)) = u\<lparr>last_temp := last_temp u, last_temp_ts := last_temp_ts u\<rparr>"
    by simp
  then show ?thesis by blast
qed

lemma user_ok_temperature: "user_ok (fst (snd (get_temperature e c u))) = user_ok u"
proof -
  obtain t s where "fst (snd (get_temperature e c u)) = u\<lparr>last_temp := t, last_temp_ts := s\<rparr>"
    using get_temperature_frame by blast
  then show ?thesis by (simp add: user_ok_def)
qed

lemma user_ok_history [simp]:
  "user_ok (log_history e u k a) = user_ok u"
  by (simp add: log_history_def user_ok_def)

lemma user_ok_accumulators [simp]:
  "user_ok (u\<lparr>logged_water := w\<rparr>) = user_ok u"
  "user_ok (u\<lparr>logged_calories := c\<rparr>) = user_ok u"
  "user_ok (u\<lparr>burned_calories := b\<rparr>) = user_ok u"
  "user_ok (u\<lparr>history := h\<rparr>) = user_ok u"
  "user_ok (u\<lparr>last_date := d\<rparr>) = user_ok u"
  "user_ok (u\<lparr>sex := sx\<rparr>) = user_ok u"
  "user_ok (u\<lparr>city := ct\<rparr>) = user_ok u"
  by (simp_all add: user_ok_def)

lemma ok_set_weight: "store_ok us \<Longrightarrow> store_ok (snd (snd (set_weight e uid txt us)))"
  using user_ok_resolved [of us e uid]
  by (auto simp: set_weight_def get_user_resolved user_ok_def positive_def
           intro!: store_ok_upd split: option.splits)

lemma ok_set_height: "store_ok us \<Longrightarrow> store_ok (snd (snd (set_height e uid txt us)))"
  using user_ok_resolved [of us e uid]
  by (auto simp: set_height_def get_user_resolved user_ok_def positive_def
           intro!: store_ok_upd split: option.splits)

lemma ok_set_age: "store_ok us \<Longrightarrow> store_ok (snd (snd (set_age e uid txt us)))"
  using user_ok_resolved [of us e uid]
  by (auto simp: set_age_def get_user_resolved user_ok_def positive_def
           intro!: store_ok_upd split: option.splits)

lemma ok_set_sex: "store_ok us \<Longrightarrow> store_ok (snd (snd (set_sex e uid txt us)))"
  using user_ok_resolved [of us e uid]
  by (auto simp: set_sex_def get_user_resolved Let_def intro!: store_ok_upd)

lemma ok_set_activity: "store_ok us \<Longrightarrow> store_ok (snd (snd (set_activity e uid txt us)))"
  using user_ok_resolved [of us e uid]
  by (auto simp: set_activity_def get_user_resolved user_ok_def positive_def
           intro!: store_ok_upd split: option.splits)

lemma ok_set_city: "store_ok us \<Longrightarrow> store_ok (snd (snd (set_city e uid txt us)))"
  using user_ok_resolved [of us e uid]
  by (auto simp: set_city_def get_user_resolved Let_def intro!: store_ok_upd)

lemma ok_set_manual_choice:
  "store_ok us \<Longrightarrow> store_ok (snd (snd (set_manual_choice e uid txt us)))"
  using user_ok_resolved [of us e uid]
  by (auto simp: set_manual_choice_def get_user_resolved Let_def user_ok_def positive_def
           intro!: store_ok_upd)

lemma ok_set_manual_calories:
  "store_ok us \<Longrightarrow> store_ok (snd (snd (set_manual_calories e uid txt us)))"
  using user_ok_resolved [of us e uid]
  by (auto simp: set_manual_calories_def get_user_resolved user_ok_def positive_def
           intro!: store_ok_upd split: option.splits)


lemma ok_show_profile: "store_ok us \<Longrightarrow> store_ok (snd (show_profile e uid us))"
  using user_ok_resolved [of us e uid]
  by (auto simp: show_profile_def get_user_resolved Let_def case_prod_beta user_ok_temperature
           intro!: store_ok_upd)

lemma ok_check_progress: "store_ok us \<Longrightarrow> store_ok (snd (check_progress e uid us))"
  using user_ok_resolved [of us e uid]
  by (auto simp: check_progress_def get_user_resolved Let_def case_prod_beta user_ok_temperature
           intro!: store_ok_upd)

lemma ok_plot_progress: "store_ok us \<Longrightarrow> store_ok (snd (plot_progress e uid us))"
  using user_ok_resolved [of us e uid]
  by (auto simp: plot_progress_def get_user_resolved Let_def case_prod_beta user_ok_temperature
           intro!: store_ok_upd)

lemma ok_recommend: "store_ok us \<Longrightarrow> store_ok (snd (recommend e uid us))"
  using user_ok_resolved [of us e uid]
  by (auto simp: recommend_def get_user_resolved Let_def case_prod_beta user_ok_temperature
           intro!: store_ok_upd)

lemma ok_log_water: "store_ok us \<Longrightarrow> store_ok (snd (log_water e uid args us))"
  using user_ok_resolved [of us e uid]
  by (auto simp: log_water_def get_user_resolved Let_def case_prod_beta user_ok_temperature
           intro!: store_ok_upd split: option.splits)

lemma ok_log_workout: "store_ok us \<Longrightarrow> store_ok (snd (log_workout e uid args us))"
  using user_ok_resolved [of us e uid]
  by (auto simp: log_workout_def get_user_resolved Let_def
           intro!: store_ok_upd split: option.splits)

lemma ok_reset_day: "store_ok us \<Longrightarrow> store_ok (snd (reset_day e uid us))"
  using user_ok_resolved [of us e uid]
  by (auto simp: reset_day_def get_user_resolved intro!: store_ok_upd)

lemma ok_log_food_start:
  "store_ok us \<Longrightarrow> store_ok (snd (snd (snd (log_food_start e uid args ud us))))"
  using user_ok_resolved [of us e uid]
  by (auto simp: log_food_start_def get_user_resolved Let_def
           intro!: store_ok_upd split: option.splits)

lemma ok_log_food_grams:
  "store_ok us \<Longrightarrow> store_ok (snd (snd (snd (log_food_grams e uid txt ud us))))"
  using user_ok_resolved [of us e uid]
  by (auto simp: log_food_grams_def get_user_resolved Let_def
           intro!: store_ok_upd split: option.splits)

lemma reachable_store_ok: "reachable us \<Longrightarrow> store_ok us"
proof (induction rule: reachable.induct)
  case start
  show ?case by (simp add: store_ok_def)
qed (simp_all add: ok_set_weight ok_set_height ok_set_age ok_set_sex ok_set_activity ok_set_city
       ok_set_manual_choice ok_set_manual_calories ok_show_profile ok_check_progress
       ok_plot_progress ok_recommend ok_log_water ok_log_workout ok_reset_day
       ok_log_food_start ok_log_food_grams)

lemma decimal_simps:
  "decimal ''70'' = Some 70" "decimal ''175'' = Some 175" "decimal ''30'' = Some 30"
  "decimal ''60'' = Some 60" "decimal ''0'' = Some 0" "decimal ''2000'' = Some 2000"
  "decimal ''200'' = Some 200" "decimal ''250'' = Some 250" "decimal ''150'' = Some 150"
  "decimal ''65'' = Some 65"
  by (simp_all add: decimal_def unsigned_decimal_def digit_of_def)

lemma day_env_simps:
  "today day_env = ''2024-01-01''" "utcnow day_env = 0" "OWM_API_KEY day_env = None"
  "float_of day_env = decimal" "lower day_env = (\<lambda>s. s)" "strip day_env = (\<lambda>s. s)"
  "fetch_food_kcal day_env = (\<lambda>n. None)"
  by (simp_all add: day_env_def quiet_env_def)

lemma parse_day_env:
  "parse_float day_env ''70'' = Some 70" "parse_int day_env ''175'' = Some 175"
  "parse_int day_env ''30'' = Some 30" "parse_int day_env ''60'' = Some 60"
  "parse_int day_env ''0'' = Some 0" "parse_int day_env ''2000'' = Some 2000"
  "parse_int day_env ''200'' = Some 200" "parse_int day_env ''65'' = Some 65"
  "parse_float day_env ''250'' = Some 250" "parse_float day_env ''150'' = Some 150"
  by (simp_all add: parse_float_def parse_int_def replace_comma_def day_env_simps decimal_simps
        int_of_float_def)

lemma filled_store_eq:
  "parse_int day_env act = Some a \<Longrightarrow> 0 \<le> a \<Longrightarrow>
   filled_store act =
     [1 \<mapsto> (new_user ''2024-01-01'')\<lparr>weight := Some 70, height := Some 175, age := Some 30,
                                      activity := Some a\<rparr>]"
  by (simp add: filled_store_def basic_store_def set_weight_def set_height_def set_age_def set_activity_def
        parse_day_env get_user_def rollover_def day_env_simps new_user_def Let_def)

lemma manual_store_eq:
  "manual_store =
     [1 \<mapsto> (new_user ''2024-01-01'')\<lparr>weight := Some 70, height := Some 175, age := Some 30,
                                      activity := Some 60, manual_calorie_goal := Some 2000\<rparr>]"
  by (simp add: manual_store_def filled_store_eq [of "''60''" 60] parse_day_env
        set_manual_calories_def get_user_def rollover_def day_env_simps new_user_def Let_def)

subsection \<open>The manual calorie goal\<close>

lemma goal_choice:
  assumes "user_ok u"
  shows "(if truthy (manual_calorie_goal u) then the (manual_calorie_goal u)
          else calc_calorie_goal (weight u) (height u) (age u) (sex u) (activity u))
         = (case manual_calorie_goal u of
              Some g \<Rightarrow> g
            | None \<Rightarrow> calc_calorie_goal (weight u) (height u) (age u) (sex u) (activity u))"
  using assms by (cases "manual_calorie_goal u") (auto simp: user_ok_def positive_def truthy_def)

lemma running_totals_Nil: "(running_totals w c hs = []) = (hs = [])"
  by (cases hs) (simp_all add: Let_def)

text \<open>
  C7. In every store the bot can reach, for a user who passes the profile gate, each
  operation that shows a calorie goal (\<^verbatim>\<open>profile\<close>, \<^verbatim>\<open>check_progress\<close>, \<^verbatim>\<open>plot\<close> when it
  draws, and \<^verbatim>\<open>recommend\<close> through the calories left) uses the manual goal when it is set,
  and the computed goal when it is not.
\<close>

theorem manual_goal_precedence:
  assumes "reachable us" and "get_user e uid us = (u, us')" and "ensure_profile u"
    and "goal = (case manual_calorie_goal u of
                   Some g \<Rightarrow> g
                 | None \<Rightarrow> calc_calorie_goal (weight u) (height u) (age u) (sex u) (activity u))"
  shows "shown_calorie_goal (fst (show_profile e uid us)) = Some goal
       \<and> shown_calorie_goal (fst (check_progress e uid us)) = Some goal
       \<and> (history u \<noteq> [] \<longrightarrow> shown_calorie_goal (fst (plot_progress e uid us)) = Some goal)
       \<and> (\<exists>w. fst (recommend e uid us) =
                 Recommendations w
                   (if 0 < max (of_int goal - logged_calories u) 0
                    then Some (int_of_float (max (of_int goal - logged_calories u) 0))
                    else None))"
proof -
  from assms(2) have u: "u = resolved e uid us"
    by (simp add: resolved_def)
  with assms(1) have ok: "user_ok u"
    by (simp add: reachable_store_ok user_ok_resolved)
  obtain t s where f: "fst (snd (get_temperature e (city u) u)) = u\<lparr>last_temp := t, last_temp_ts := s\<rparr>"
    using get_temperature_frame by blast
  from ok have ok': "user_ok (u\<lparr>last_temp := t, last_temp_ts := s\<rparr>)"
    by (simp add: user_ok_def)
  have g: "(if truthy (manual_calorie_goal u) then the (manual_calorie_goal u)
            else calc_calorie_goal (weight u) (height u) (age u) (sex u) (activity u)) = goal"
    using goal_choice [OF ok] assms(4) by simp
  then have g1: "truthy (manual_calorie_goal u) \<Longrightarrow> the (manual_calorie_goal u) = goal"
    and g2: "\<not> truthy (manual_calorie_goal u) \<Longrightarrow>
             calc_calorie_goal (weight u) (height u) (age u) (sex u) (activity u) = goal"
    by (simp_all split: if_splits)
  have 1: "shown_calorie_goal (fst (show_profile e uid us)) = Some goal"
    using assms(2,3) f g1 g2 by (simp add: show_profile_def Let_def case_prod_beta)
  have 2: "shown_calorie_goal (fst (check_progress e uid us)) = Some goal"
    using assms(2,3) f g1 g2 by (simp add: check_progress_def Let_def case_prod_beta)
  have 3: "history u \<noteq> [] \<longrightarrow> shown_calorie_goal (fst (plot_progress e uid us)) = Some goal"
    using assms(2,3) f g1 g2
    by (simp add: plot_progress_def Let_def case_prod_beta running_totals_Nil)
  have 4: "\<exists>w. fst (recommend e uid us) =
                 Recommendations w
                   (if 0 < max (of_int goal - logged_calories u) 0
                    then Some (int_of_float (max (of_int goal - logged_calories u) 0))
                    else None)"
    using assms(2,3) f g1 g2 by (simp add: recommend_def Let_def case_prod_beta)
  from 1 2 3 4 show ?thesis by blast
qed

lemma reachable_logged_store: "reachable logged_store"
  unfolding logged_store_def manual_store_def filled_store_def basic_store_def
  by (intro reachable.intros)

lemma logged_store_eq:
  "logged_store =
     [1 \<mapsto> (new_user ''2024-01-01'')\<lparr>weight := Some 70, height := Some 175, age := Some 30,
                                      activity := Some 60, manual_calorie_goal := Some 2000,
                                      logged_water := 200,
                                      history := [\<lparr>ts = 0, kind = ''water'', amount = 200\<rparr>]\<rparr>]"
  by (simp add: logged_store_def manual_store_eq log_water_def parse_day_env get_user_def
        rollover_def day_env_simps new_user_def Let_def ensure_profile_def truthy_def
        log_history_def get_temperature_def truthy_str_def)

theorem manual_goal_precedence_witness:
  "shown_calorie_goal (fst (show_profile day_env 1 logged_store)) = Some 2000
   \<and> shown_calorie_goal (fst (check_progress day_env 1 logged_store)) = Some 2000
   \<and> shown_calorie_goal (fst (plot_progress day_env 1 logged_store)) = Some 2000
   \<and> (\<exists>w. fst (recommend day_env 1 logged_store) = Recommendations w (Some 2000))"
proof -
  let ?u = "(new_user ''2024-01-01'')\<lparr>weight := Some 70, height := Some 175, age := Some 30,
              activity := Some 60, manual_calorie_goal := Some 2000, logged_water := 200,
              history := [\<lparr>ts = 0, kind = ''water'', amount = 200\<rparr>]\<rparr>"
  have g: "get_user day_env 1 logged_store = (?u, logged_store)"
    by (simp add: logged_store_eq get_user_def rollover_def day_env_simps new_user_def Let_def)
  have e: "ensure_profile ?u"
    by (simp add: ensure_profile_def truthy_def new_user_def)
  have m: "(2000::int) = (case manual_calorie_goal ?u of
                   Some g \<Rightarrow> g
                 | None \<Rightarrow> calc_calorie_goal (weight ?u) (height ?u) (age ?u) (sex ?u) (activity ?u))"
    by simp
  have h: "history ?u \<noteq> []" and l: "logged_calories ?u = 0"
    by (simp_all add: new_user_def)
  from manual_goal_precedence [OF reachable_logged_store g e m] h l
  show ?thesis by (simp add: int_of_float_def)
qed

subsection \<open>Food logging\<close>






subsection \<open>Workout logging\<close>

lemma dance_unlisted: "WORKOUT_KCAL_PER_MIN ''dance'' = None"
  by (simp add: WORKOUT_KCAL_PER_MIN_def)

lemma log_workout_default_rate:
  assumes "get_user e uid us = (u, us')" and "ensure_profile u" and "2 \<le> length args"
    and "parse_int e (last args) = Some m" and "0 < m"
    and "WORKOUT_KCAL_PER_MIN (lower e (join (butlast args))) = None"
  shows "log_workout e uid args us =
           (Workout_logged (lower e (join (butlast args))) m (6 * m)
              (if (m div 30) * 200 \<noteq> 0 then Some ((m div 30) * 200) else None),
            us(uid \<mapsto> u\<lparr>burned_calories := burned_calories u + 6 * m,
                          history := history u
                            @ [\<lparr>ts = utcnow e, kind = ''workout'', amount = of_int (6 * m)\<rparr>]\<rparr>))"
proof -
  from assms(1) have us': "us' = us(uid \<mapsto> u)"
    by (auto simp: get_user_def Let_def)
  from assms us' show ?thesis
    by (simp add: log_workout_def log_history_def Let_def)
qed

text \<open>
  C9. For a workout of \<open>m > 0\<close> minutes whose type is not in the table of rates,
  \<^verbatim>\<open>log_workout\<close> adds \<open>6 * m\<close> to the burned calories, appends one workout event, and
  suggests \<open>floor (m / 30) * 200\<close> ml of water (the reply mentions the suggestion when it
  is not 0). For 65 minutes: 390 calories and 400 ml.
\<close>

theorem log_workout_unlisted:
  "(get_user e uid us = (u, us') \<and> ensure_profile u \<and> 2 \<le> length args
      \<and> parse_int e (last args) = Some m \<and> 0 < m
      \<and> WORKOUT_KCAL_PER_MIN (lower e (join (butlast args))) = None
      \<longrightarrow> log_workout e uid args us =
           (Workout_logged (lower e (join (butlast args))) m (6 * m)
              (if (m div 30) * 200 \<noteq> 0 then Some ((m div 30) * 200) else None),
            us(uid \<mapsto> u\<lparr>burned_calories := burned_calories u + 6 * m,
                          history := history u
                            @ [\<lparr>ts = utcnow e, kind = ''workout'', amount = of_int (6 * m)\<rparr>]\<rparr>)))
   \<and> fst (log_workout day_env 1 [''dance'', ''65''] logged_store)
       = Workout_logged ''dance'' 65 390 (Some 400)"
proof (intro conjI impI)
  assume "get_user e uid us = (u, us') \<and> ensure_profile u \<and> 2 \<le> length args
      \<and> parse_int e (last args) = Some m \<and> 0 < m
      \<and> WORKOUT_KCAL_PER_MIN (lower e (join (butlast args))) = None"
  then show "log_workout e uid args us =
           (Workout_logged (lower e (join (butlast args))) m (6 * m)
              (if (m div 30) * 200 \<noteq> 0 then Some ((m div 30) * 200) else None),
            us(uid \<mapsto> u\<lparr>burned_calories := burned_calories u + 6 * m,
                          history := history u
                            @ [\<lparr>ts = utcnow e, kind = ''workout'', amount = of_int (6 * m)\<rparr>]\<rparr>))"
    using log_workout_default_rate by blast
next
  let ?u = "(new_user ''2024-01-01'')\<lparr>weight := Some 70, height := Some 175, age := Some 30,
              activity := Some 60, manual_calorie_goal := Some 2000, logged_water := 200,
              history := [\<lparr>ts = 0, kind = ''water'', amount = 200\<rparr>]\<rparr>"
  have g: "get_user day_env 1 logged_store = (?u, logged_store)"
    by (simp add: logged_store_eq get_user_def rollover_def day_env_simps new_user_def Let_def)
  have e: "ensure_profile ?u"
    by (simp add: ensure_profile_def truthy_def new_user_def)
  have "log_workout day_env 1 [''dance'', ''65''] logged_store =
           (Workout_logged (lower day_env (join (butlast [''dance'', ''65'']))) 65 (6 * 65)
              (if (65 div 30) * 200 \<noteq> (0::int) then Some ((65 div 30) * 200) else None),
            logged_store(1 \<mapsto> ?u\<lparr>burned_calories := burned_calories ?u + 6 * 65,
                          history := history ?u
                            @ [\<lparr>ts = utcnow day_env, kind = ''workout'', amount = of_int (6 * 65)\<rparr>]\<rparr>))"
    by (rule log_workout_default_rate [OF g e])
       (simp_all add: parse_day_env day_env_simps dance_unlisted)
  then show "fst (log_workout day_env 1 [''dance'', ''65''] logged_store)
       = Workout_logged ''dance'' 65 390 (Some 400)"
    by (simp add: day_env_simps)
qed

theorem log_workout_unlisted_witness:
  "log_workout day_env 1 [''dance'', ''65''] logged_store =
     (Workout_logged ''dance'' 65 390 (Some 400),
      logged_store(1 \<mapsto> (new_user ''2024-01-01'')\<lparr>weight := Some 70, height := Some 175,
         age := Some 30, activity := Some 60, manual_calorie_goal := Some 2000,
         logged_water := 200, burned_calories := 390,
         history := [\<lparr>ts = 0, kind = ''water'', amount = 200\<rparr>,
                     \<lparr>ts = 0, kind = ''workout'', amount = 390\<rparr>]\<rparr>))"
proof -
  let ?u = "(new_user ''2024-01-01'')\<lparr>weight := Some 70, height := Some 175, age := Some 30,
              activity := Some 60, manual_calorie_goal := Some 2000, logged_water := 200,
              history := [\<lparr>ts = 0, kind = ''water'', amount = 200\<rparr>]\<rparr>"
  have h: "get_user day_env 1 logged_store = (?u, logged_store) \<and> ensure_profile ?u
      \<and> 2 \<le> length [''dance'', ''65'']
      \<and> parse_int day_env (last [''dance'', ''65'']) = Some 65 \<and> (0::int) < 65
      \<and> WORKOUT_KCAL_PER_MIN (lower day_env (join (butlast [''dance'', ''65'']))) = None"
    by (simp add: logged_store_eq get_user_def rollover_def day_env_simps new_user_def Let_def
          ensure_profile_def truthy_def parse_day_env dance_unlisted)
  from log_workout_unlisted [of day_env 1 logged_store ?u logged_store "[''dance'', ''65'']" 65] h
  have "log_workout day_env 1 [''dance'', ''65''] logged_store =
           (Workout_logged (lower day_env (join (butlast [''dance'', ''65'']))) 65 (6 * 65)
              (if (65 div 30) * 200 \<noteq> (0::int) then Some ((65 div 30) * 200) else None),
            logged_store(1 \<mapsto> ?u\<lparr>burned_calories := burned_calories ?u + 6 * 65,
                          history := history ?u
                            @ [\<lparr>ts = utcnow day_env, kind = ''workout'', amount = of_int (6 * 65)\<rparr>]\<rparr>))"
    by blast
  then show ?thesis
    by (simp add: day_env_simps new_user_def)
qed

subsection \<open>The profile gate\<close>

text \<open>
  In a store the bot can reach, weight, height, age and manual goal are positive when
  set, so the gate \<^verbatim>\<open>ensure_profile\<close> passes exactly when weight, height, age and
  activity are set and the activity is not 0.
\<close>

lemma basic_store_eq:
  "basic_store =
     [1 \<mapsto> (new_user ''2024-01-01'')\<lparr>weight := Some 70, height := Some 175, age := Some 30\<rparr>]"
  by (simp add: basic_store_def set_weight_def set_height_def set_age_def
        parse_day_env get_user_def rollover_def day_env_simps new_user_def Let_def)

lemma gate_on_reachable:
  assumes "reachable us" and "us uid = Some u"
  shows "ensure_profile u =
           (weight u \<noteq> None \<and> height u \<noteq> None \<and> age u \<noteq> None \<and> activity u \<noteq> None
            \<and> activity u \<noteq> Some 0)"
proof -
  from assms have "user_ok u"
    using reachable_store_ok by (auto simp: store_ok_def)
  then show ?thesis
    by (auto simp: user_ok_def positive_def ensure_profile_def truthy_def split: option.splits)
qed

text \<open>
  C1 says that a profile with weight, height and age set counts as complete for every
  activity that \<^verbatim>\<open>set_activity\<close> accepts, 0 included. The code does not do that for 0:
  \<^verbatim>\<open>set_activity\<close> accepts the text 0 (it rejects only \<^verbatim>\<open>None\<close> and negative values) and
  stores it, and \<^verbatim>\<open>ensure_profile\<close> then tests the stored 0 for truth, so the profile
  counts as incomplete and every gated command replies that the profile must be filled
  in, changing nothing. The run: weight 70, height 175, age 30, activity 0, then each
  gated command.
\<close>

theorem zero_activity_fails_gate:
  "set_activity day_env 1 ''0'' basic_store = (Ask_profile CITY, Goto CITY, filled_store ''0'')
   \<and> filled_store ''0'' =
       [1 \<mapsto> (new_user ''2024-01-01'')\<lparr>weight := Some 70, height := Some 175, age := Some 30,
                                        activity := Some 0\<rparr>]
   \<and> \<not> ensure_profile ((new_user ''2024-01-01'')\<lparr>weight := Some 70, height := Some 175,
                            age := Some 30, activity := Some 0\<rparr>)
   \<and> log_water day_env 1 [''200''] (filled_store ''0'') = (Profile_incomplete, filled_store ''0'')
   \<and> fst (log_workout day_env 1 [''dance'', ''65''] (filled_store ''0'')) = Profile_incomplete
   \<and> fst (log_food_start day_env 1 [''borscht''] \<lparr>food_name = None, food_kcal = None\<rparr>
            (filled_store ''0'')) = Profile_incomplete
   \<and> fst (check_progress day_env 1 (filled_store ''0'')) = Profile_incomplete
   \<and> fst (plot_progress day_env 1 (filled_store ''0'')) = Profile_incomplete
   \<and> fst (recommend day_env 1 (filled_store ''0'')) = Profile_incomplete
   \<and> fst (show_profile day_env 1 (filled_store ''0'')) = Profile_incomplete"
proof -
  let ?u = "(new_user ''2024-01-01'')\<lparr>weight := Some 70, height := Some 175, age := Some 30,
              activity := Some 0\<rparr>"
  have f: "filled_store ''0'' = [1 \<mapsto> ?u]"
    by (rule filled_store_eq [of "''0''" 0]) (simp_all add: parse_day_env)
  have s: "set_activity day_env 1 ''0'' basic_store = (Ask_profile CITY, Goto CITY, [1 \<mapsto> ?u])"
    by (simp add: basic_store_eq set_activity_def parse_day_env get_user_def rollover_def
          day_env_simps new_user_def Let_def)
  have n: "\<not> ensure_profile ?u"
    by (simp add: ensure_profile_def truthy_def)
  have g: "get_user day_env 1 [1 \<mapsto> ?u] = (?u, [1 \<mapsto> ?u])"
    by (simp add: get_user_def rollover_def day_env_simps new_user_def Let_def)
  have w: "log_water day_env 1 [''200''] [1 \<mapsto> ?u] = (Profile_incomplete, [1 \<mapsto> ?u])"
    using n by (simp add: log_water_def g)
  have k: "fst (log_workout day_env 1 [''dance'', ''65''] [1 \<mapsto> ?u]) = Profile_incomplete"
    using n by (simp add: log_workout_def g)
  have d: "fst (log_food_start day_env 1 [''borscht''] \<lparr>food_name = None, food_kcal = None\<rparr>
            [1 \<mapsto> ?u]) = Profile_incomplete"
    using n by (simp add: log_food_start_def g)
  have c: "fst (check_progress day_env 1 [1 \<mapsto> ?u]) = Profile_incomplete"
    using n by (simp add: check_progress_def g)
  have p: "fst (plot_progress day_env 1 [1 \<mapsto> ?u]) = Profile_incomplete"
    using n by (simp add: plot_progress_def g)
  have r: "fst (recommend day_env 1 [1 \<mapsto> ?u]) = Profile_incomplete"
    using n by (simp add: recommend_def g)
  have h: "fst (show_profile day_env 1 [1 \<mapsto> ?u]) = Profile_incomplete"
    using n by (simp add: show_profile_def g)
  from f s n w k d c p r h show ?thesis
    by (simp only: f) simp
qed

end
